theory Spec2Isabelle
  imports Main "HOL-Library.Multiset"
begin

section \<open>Errors\<close>

text \<open>
  Every exception the modelled code raises is a value. The payload of a
  \<open>ConfigurationError\<close> or \<open>QueryError\<close> names the message the source formats
  (listed with \<open>cfg_msg\<close> below). \<open>HookError\<close> stands for an exception raised by a
  collaborator (a listener's constructor, \<open>start()\<close> or \<open>stop()\<close>) whose class
  derives from \<open>Exception\<close>, identified by its message. \<open>CancelledError\<close> is
  \<open>asyncio.CancelledError\<close>, which derives from \<open>BaseException\<close> only: a handler
  \<open>except Exception\<close> does not catch it. \<open>is_Exception\<close> tells the two kinds apart.
\<close>

datatype config_scope = INSTANCE | DATABASE | SESSION

text \<open>
  The messages of \<open>ConfigurationError\<close> in \<open>edb.edgeql.compiler.config\<close>, each with
  the name the source formats into it: "unrecognized configuration parameter",
  "unrecognized configuration object", "cannot be configured directly", "is a
  system-level configuration parameter; use CONFIGURE INSTANCE", "is not a valid
  configuration item".
\<close>

datatype cfg_msg =
    Unrecognized_parameter string
  | Unrecognized_object string
  | Cannot_be_configured_directly string
  | System_level_parameter string
  | Not_a_valid_item string

datatype query_msg =
    Invalid_module
  | Non_constant_set config_scope
  | Reset_primitive_with_filter

datatype error =
    QueryError query_msg
  | ConfigurationError cfg_msg
  | UnsupportedFeatureError config_scope
  | InvalidReferenceError string
  | AssertionError
  | AttributeError
  | IndexError
  | JSONDecodeError
  | RuntimeError string
  | HookError string
  | CancelledError

fun is_Exception :: "error \<Rightarrow> bool" where
  "is_Exception CancelledError = False"
| "is_Exception _ = True"

section \<open>The server: listeners, the management port, the port registry\<close>

text \<open>
  A listener object. The listener classes (\<open>mng_port.ManagementPort\<close>, the HTTP
  ports) are collaborators: the model keeps the keyword arguments a listener was
  constructed with and one bit of state, whether its last completed hook was a
  successful \<open>start()\<close>.
\<close>

datatype port_cls = ManagementPort | HttpGraphQLPort | HttpEdgeQLPort | NotebookPort

record startup_script =
  script_text :: string
  script_database :: string
  script_user :: string

datatype port_kwargs =
    MgmtKwargs bool "int \<times> int" "startup_script option"
  | HttpKwargs string string string int

record listener =
  cls :: port_cls
  nethost :: string
  netport :: int
  kwargs :: port_kwargs
  running :: bool

record portconf =
  protocol :: string
  address :: string
  port :: int
  database :: string
  user :: string
  concurrency :: int

datatype auth_method = Trust | SCRAM

record auth =
  priority :: int
  auth_user :: "string list"
  auth_method :: auth_method

text \<open>
  The part of \<open>Server\<close> the configuration dispatcher reads and writes. Listener
  objects live in \<open>heap\<close> (a reference is an index; a new object is appended, so a
  fresh reference never aliases an old one). \<open>cfg_auth\<close> is what
  \<open>config.lookup('auth', self._dbindex.get_sys_config())\<close> returns, in the
  iteration order of the returned collection. \<open>logged\<close> collects the messages
  passed to \<open>logging\<close>.
\<close>

record server =
  heap :: "listener list"
  mgmt_port :: "nat option"
  mgmt_host_addr :: string
  mgmt_port_no :: int
  mgmt_protocol_max :: "int \<times> int"
  auto_shutdown :: bool
  sys_conf_ports :: "portconf \<rightharpoonup> nat"
  sys_auth :: "auth list"
  cfg_auth :: "auth list option"
  logged :: "string list"

definition deref :: "server \<Rightarrow> nat \<Rightarrow> listener option" where
  "deref s p = (if p < length (heap s) then Some (heap s ! p) else None)"

definition set_running :: "bool \<Rightarrow> nat \<Rightarrow> server \<Rightarrow> server" where
  "set_running b p s =
     (if p < length (heap s) then s\<lparr>heap := (heap s)[p := (heap s ! p)\<lparr>running := b\<rparr>]\<rparr>
      else s)"

definition log_msg :: "string \<Rightarrow> server \<Rightarrow> server" where
  "log_msg m s = s\<lparr>logged := logged s @ [m]\<rparr>"

text \<open>
  Modelled from the spec: the listener primitive (\<open>start()\<close>, \<open>stop()\<close>) is not in
  the source. The outcome of each awaited hook is an input (\<open>None\<close>: the hook
  returns; \<open>Some e\<close>: it raises \<open>e\<close>); a \<open>start()\<close> that returns leaves the
  listener running, a \<open>stop()\<close> that returns leaves it stopped, and a hook that
  raises leaves the recorded state as it was.
\<close>

definition port_start :: "error option \<Rightarrow> nat \<Rightarrow> server \<Rightarrow> (error + unit) \<times> server" where
  "port_start outcome p s =
     (case outcome of Some e \<Rightarrow> (Inl e, s) | None \<Rightarrow> (Inr (), set_running True p s))"

definition port_stop :: "error option \<Rightarrow> nat \<Rightarrow> server \<Rightarrow> (error + unit) \<times> server" where
  "port_stop outcome p s =
     (case outcome of Some e \<Rightarrow> (Inl e, s) | None \<Rightarrow> (Inr (), set_running False p s))"

text \<open>\<open>Server._new_port\<close>: the constructor either raises or yields a new object.\<close>

definition new_port ::
  "error option \<Rightarrow> port_cls \<Rightarrow> string \<Rightarrow> int \<Rightarrow> port_kwargs \<Rightarrow> server \<Rightarrow> (error + nat) \<times> server" where
  "new_port outcome c h n kw s =
     (case outcome of
        Some e \<Rightarrow> (Inl e, s)
      | None \<Rightarrow>
          (Inr (length (heap s)),
           s\<lparr>heap := heap s @ [\<lparr>cls = c, nethost = h, netport = n, kwargs = kw, running = False\<rparr>]\<rparr>))"

text \<open>The outcomes of the external calls of \<open>_restart_mgmt_port\<close>, in source order.\<close>

record restart_env =
  stop_old :: "error option"
  construct_new :: "error option"
  start_new :: "error option"
  stop_new :: "error option"
  restart_old :: "error option"

text \<open>
  The end of both \<open>except\<close> blocks of \<open>_restart_mgmt_port\<close>:
  \<open>await self._mgmt_port.start()\<close> followed by a bare \<open>raise\<close>. The restart is a
  plain \<open>await\<close>: when it raises, its exception is the one that leaves the function.
\<close>

definition restart_original :: "restart_env \<Rightarrow> nat \<Rightarrow> error \<Rightarrow> server \<Rightarrow> (error + unit) \<times> server" where
  "restart_original env old e s =
     (case port_start (restart_old env) old s of
        (Inl e', s') \<Rightarrow> (Inl e', s')
      | (Inr _, s') \<Rightarrow> (Inl e, s'))"

text \<open>
  \<open>Server._restart_mgmt_port\<close>. The three handlers are \<open>except Exception\<close>: a raise
  that is not an \<open>Exception\<close> passes through them, with no clean-up, no log and no
  restart of the original.
\<close>

definition restart_mgmt_port ::
  "restart_env \<Rightarrow> string \<Rightarrow> int \<Rightarrow> server \<Rightarrow> (error + unit) \<times> server" where
  "restart_mgmt_port env h n s =
     (case mgmt_port s of
        None \<Rightarrow> (Inl AttributeError, s)
      | Some old \<Rightarrow>
          (case port_stop (stop_old env) old s of
             (Inl e, s1) \<Rightarrow> (Inl e, s1)
           | (Inr _, s1) \<Rightarrow>
               (case new_port (construct_new env) ManagementPort h n
                       (MgmtKwargs (auto_shutdown s1) (mgmt_protocol_max s1) None) s1 of
                  (Inl e, s2) \<Rightarrow>
                    if is_Exception e then restart_original env old e s2 else (Inl e, s2)
                | (Inr new, s2) \<Rightarrow>
                    (case port_start (start_new env) new s2 of
                       (Inl e, s3) \<Rightarrow>
                         if \<not> is_Exception e then (Inl e, s3)
                         else
                           (case port_stop (stop_new env) new s3 of
                              (Inl x, s4) \<Rightarrow>
                                if is_Exception x
                                then restart_original env old e
                                       (log_msg ''could not stop the new server'' s4)
                                else (Inl x, s4)
                            | (Inr _, s4) \<Rightarrow> restart_original env old e s4)
                     | (Inr _, s3) \<Rightarrow>
                         (Inr (), s3\<lparr>mgmt_host_addr := h, mgmt_port_no := n,
                                     mgmt_port := Some new\<rparr>)))))"

text \<open>The outcomes of the external calls of \<open>_start_portconf\<close>, in source order.\<close>

record start_env =
  construct_port :: "error option"
  start_port :: "error option"
  stop_port :: "error option"

definition port_cls_of :: "string \<Rightarrow> port_cls option" where
  "port_cls_of proto =
     (if proto = ''graphql+http'' then Some HttpGraphQLPort
      else if proto = ''edgeql+http'' then Some HttpEdgeQLPort
      else if proto = ''notebook'' then Some NotebookPort
      else None)"

text \<open>
  \<open>Server._start_portconf\<close>. The result is the returned port (\<open>None\<close> for the bare
  \<open>return\<close>). The assignment to \<open>_sys_conf_ports\<close> follows the whole
  \<open>try\<close> statement, so it is reached from the \<open>else\<close> branch and from the
  \<open>except\<close> branch that logs instead of raising. The handler is
  \<open>except Exception\<close>: any other raise of \<open>start()\<close> leaves the function at once.
\<close>

definition start_portconf ::
  "start_env \<Rightarrow> portconf \<Rightarrow> bool \<Rightarrow> server \<Rightarrow> (error + nat option) \<times> server" where
  "start_portconf env pc suppress_errors s =
     (if sys_conf_ports s pc \<noteq> None
      then (Inr None, log_msg ''port for config has been already started'' s)
      else case port_cls_of (protocol pc) of
        None \<Rightarrow> (Inl (InvalidReferenceError (protocol pc)), s)
      | Some c \<Rightarrow>
          (case new_port (construct_port env) c (address pc) (port pc)
                  (HttpKwargs (database pc) (user pc) (protocol pc) (concurrency pc)) s of
             (Inl e, s1) \<Rightarrow> (Inl e, s1)
           | (Inr p, s1) \<Rightarrow>
               (let register = (\<lambda>s'. (Inr (Some p),
                                       s'\<lparr>sys_conf_ports := (sys_conf_ports s')(pc \<mapsto> p)\<rparr>))
                in case port_start (start_port env) p s1 of
                     (Inl ex, s2) \<Rightarrow>
                       if \<not> is_Exception ex then (Inl ex, s2)
                       else
                         (case port_stop (stop_port env) p s2 of
                            (Inl e', s3) \<Rightarrow> (Inl e', s3)
                          | (Inr _, s3) \<Rightarrow>
                              if suppress_errors
                              then register (log_msg ''failed to start port for config'' s3)
                              else (Inl ex, s3))
                   | (Inr _, s2) \<Rightarrow> register (log_msg ''started port for config'' s2))))"

text \<open>\<open>Server._populate_sys_auth\<close>: \<open>sorted\<close> is stable, as \<open>sort_key\<close> is.\<close>

definition populate_sys_auth :: "server \<Rightarrow> server" where
  "populate_sys_auth s =
     (let a = (case cfg_auth s of None \<Rightarrow> [] | Some xs \<Rightarrow> xs)
      in s\<lparr>sys_auth := sort_key priority a\<rparr>)"

text \<open>
  The after-hooks of the dispatcher for an added and a removed configuration
  object; the value is not read.
\<close>

definition after_system_config_add :: "string \<Rightarrow> 'v \<Rightarrow> server \<Rightarrow> server" where
  "after_system_config_add setting_name v s =
     (if setting_name = ''auth'' then populate_sys_auth s else s)"

definition after_system_config_rem :: "string \<Rightarrow> 'v \<Rightarrow> server \<Rightarrow> server" where
  "after_system_config_rem setting_name v s =
     (if setting_name = ''auth'' then populate_sys_auth s else s)"

text \<open>
  \<open>Server.get_auth_method\<close>. \<open>None\<close> is Python's \<open>None\<close>, returned when the loop
  ends without a match. The default method is a new instance of the settings
  type named \<open>SCRAM\<close>.
\<close>

fun first_match :: "string \<Rightarrow> auth list \<Rightarrow> auth_method option" where
  "first_match u [] = None"
| "first_match u (a # rest) =
     (if u \<in> set (auth_user a) \<or> ''*'' \<in> set (auth_user a) then Some (auth_method a)
      else first_match u rest)"

definition get_auth_method :: "string \<Rightarrow> server \<Rightarrow> auth_method option" where
  "get_auth_method u s =
     (if sys_auth s = [] then Some SCRAM else first_match u (sys_auth s))"

section \<open>The system-connection arbitrator\<close>

text \<open>
  Modelled from the spec: \<open>asyncio.Queue\<close> is not in the source. Section 4.3 of the
  specification: one connection handle and one FIFO waiter queue seeded with that single
  handle; \<open>acquire\<close> suspends the caller until the queue yields the handle, the first
  waiter being served first; \<open>release\<close> pushes the handle back onto the queue, waking
  the next waiter if any. \<open>items\<close> are the handles lying in the queue and \<open>waiting\<close>
  the suspended callers, oldest first. \<open>holding\<close> and \<open>granted\<close> record, for the
  properties below, the callers that have the handle now and the order in which callers
  were given it; the queue does not read them.
\<close>

datatype pgcon = SysPgcon

record arbitrator =
  items :: "pgcon list"
  waiting :: "nat list"
  holding :: "nat list"
  granted :: "nat list"

text \<open>
  Modelled from the spec: \<open>asyncio.Queue.get\<close>, "suspends the caller until the queue
  yields the handle": a caller that finds the handle takes it, any other joins the
  waiters at the end.
\<close>

definition queue_get :: "nat \<Rightarrow> arbitrator \<Rightarrow> arbitrator" where
  "queue_get c a =
     (case items a of
        [] \<Rightarrow> a\<lparr>waiting := waiting a @ [c]\<rparr>
      | h # rest \<Rightarrow> a\<lparr>items := rest, holding := holding a @ [c], granted := granted a @ [c]\<rparr>)"

text \<open>
  Modelled from the spec: \<open>asyncio.Queue.put_nowait\<close>, "pushes the handle back onto
  the queue, waking the next waiter if any": the oldest waiter, when there is one, is
  given the handle; otherwise the handle lies in the queue.
\<close>

definition queue_put_nowait :: "pgcon \<Rightarrow> arbitrator \<Rightarrow> arbitrator" where
  "queue_put_nowait h a =
     (case waiting a of
        [] \<Rightarrow> a\<lparr>items := items a @ [h]\<rparr>
      | w # ws \<Rightarrow> a\<lparr>waiting := ws, holding := holding a @ [w], granted := granted a @ [w]\<rparr>)"

text \<open>
  \<open>Server.init\<close>: a new queue, and \<open>put_nowait\<close> of the system connection.
\<close>

definition init_sys_pgcon_waiters :: arbitrator where
  "init_sys_pgcon_waiters =
     queue_put_nowait SysPgcon \<lparr>items = [], waiting = [], holding = [], granted = []\<rparr>"

text \<open>
  A caller, known by a number, awaits \<open>_acquire_sys_pgcon\<close> or calls
  \<open>_release_sys_pgcon\<close>. The release puts the handle back whoever calls it.
\<close>

datatype event = Acquire nat | Release nat

fun arb_step :: "event \<Rightarrow> arbitrator \<Rightarrow> arbitrator" where
  "arb_step (Acquire c) a = queue_get c a"
| "arb_step (Release c) a = queue_put_nowait SysPgcon (a\<lparr>holding := remove1 c (holding a)\<rparr>)"

text \<open>
  \<open>_acquire_sys_pgcon\<close> and \<open>_release_sys_pgcon\<close> on the attribute
  \<open>_sys_pgcon_waiters\<close>, which is \<open>None\<close> before \<open>init\<close> and after \<open>stop\<close>.
\<close>

definition acquire_sys_pgcon :: "nat \<Rightarrow> arbitrator option \<Rightarrow> error + arbitrator" where
  "acquire_sys_pgcon c w =
     (case w of
        None \<Rightarrow> Inl (RuntimeError ''invalid request to acquire a system pgcon'')
      | Some a \<Rightarrow> Inr (arb_step (Acquire c) a))"

definition release_sys_pgcon :: "nat \<Rightarrow> arbitrator option \<Rightarrow> error + arbitrator" where
  "release_sys_pgcon c w =
     (case w of
        None \<Rightarrow> Inl AttributeError
      | Some a \<Rightarrow> Inr (arb_step (Release c) a))"

fun arb_run :: "event list \<Rightarrow> arbitrator \<Rightarrow> arbitrator" where
  "arb_run [] a = a"
| "arb_run (ev # evs) a = arb_run evs (arb_step ev a)"

text \<open>The callers of a sequence of events in the order of their acquire requests.\<close>

fun acquirers :: "event list \<Rightarrow> nat list" where
  "acquirers [] = []"
| "acquirers (Acquire c # evs) = c # acquirers evs"
| "acquirers (Release c # evs) = acquirers evs"

text \<open>
  The acquire/release bracket of the specification: every release is made by a caller
  that holds the handle.
\<close>

fun disciplined :: "arbitrator \<Rightarrow> event list \<Rightarrow> bool" where
  "disciplined a [] = True"
| "disciplined a (Acquire c # evs) = disciplined (arb_step (Acquire c) a) evs"
| "disciplined a (Release c # evs) =
     (c \<in> set (holding a) \<and> disciplined (arb_step (Release c) a) evs)"

section \<open>The CONFIGURE statement compiler\<close>

subsection \<open>The EdgeQL syntax tree\<close>

text \<open>
  The part of \<open>qlast\<close> the configuration compiler builds and inspects. An
  expression of any other class is \<open>QLOther\<close>.
\<close>

record objectref =
  ref_name :: string
  ref_module :: "string option"

datatype step = ObjectRef objectref | Ptr objectref | Introspect step

datatype qlexpr =
    InsertQuery qlexpr "shape_element list"
  | SelectQuery qlexpr "qlexpr option"
  | Shape qlexpr "shape_element list"
  | Path "step list"
  | QLOther nat
and shape_element = ShapeElement qlexpr "qlexpr option"

datatype config_op =
    ConfigSet objectref config_scope qlexpr
  | ConfigReset objectref config_scope "qlexpr option"
  | ConfigInsert objectref config_scope "shape_element list"

fun op_name :: "config_op \<Rightarrow> objectref" where
  "op_name (ConfigSet n _ _) = n"
| "op_name (ConfigReset n _ _) = n"
| "op_name (ConfigInsert n _ _) = n"

fun op_scope :: "config_op \<Rightarrow> config_scope" where
  "op_scope (ConfigSet _ sc _) = sc"
| "op_scope (ConfigReset _ sc _) = sc"
| "op_scope (ConfigInsert _ sc _) = sc"

fun is_set_or_reset :: "config_op \<Rightarrow> bool" where
  "is_set_or_reset (ConfigInsert _ _ _) = False"
| "is_set_or_reset _ = True"

fun is_config_set :: "config_op \<Rightarrow> bool" where
  "is_config_set (ConfigSet _ _ _) = True"
| "is_config_set _ = False"

subsection \<open>The catalog\<close>

text \<open>
  Modelled from the spec: the schema classes (\<open>edb.schema\<close>) are not in the
  source; the catalog view is the interface of section 6 of the specification.
  A type is known by its name in module \<open>cfg\<close>. \<open>get_type\<close> is
  \<open>get_track_schema_type(QualName('cfg', name), default=None)\<close>, \<open>get_object\<close>
  tells whether \<open>get_track_schema_object\<close> finds an object of that name,
  \<open>maybe_get_ptr\<close> is the method of that name, \<open>get_ancestors\<close> lists the
  ancestors most-derived first, and \<open>get_referrers\<close> lists the links whose
  target is the type, in the order in which the returned set is iterated.
  \<open>json_loads\<close> is \<open>json.loads\<close> (\<open>None\<close>: the text is not JSON).
\<close>

datatype stype = ObjectType string | ScalarType string

datatype cardinality = One | Many

datatype json = JNull | JBool bool | JNum int | JStr string

record pointer =
  shortname :: string
  ptr_source :: "stype option"
  ptr_target :: "stype option"
  ptr_cardinality :: "cardinality option"
  annotations :: "(string \<times> string) list"

record schema =
  get_type :: "string \<Rightarrow> stype option"
  get_object :: "string \<Rightarrow> bool"
  maybe_get_ptr :: "stype \<Rightarrow> string \<Rightarrow> pointer option"
  get_ancestors :: "stype \<Rightarrow> stype list"
  get_referrers :: "stype \<Rightarrow> pointer list"
  get_config_type_shape :: "stype \<Rightarrow> step list \<Rightarrow> shape_element list"
  json_loads :: "string \<Rightarrow> json option"

text \<open>
  Modelled from the spec: \<open>issubclass\<close> of the schema classes, "the source is,
  transitively, the root configuration object": the type itself or one of its
  ancestors.
\<close>

definition issubclass :: "schema \<Rightarrow> stype \<Rightarrow> stype \<Rightarrow> bool" where
  "issubclass sch t parent = (t = parent \<or> parent \<in> set (get_ancestors sch t))"

fun is_object_type :: "stype \<Rightarrow> bool" where
  "is_object_type (ObjectType _) = True"
| "is_object_type (ScalarType _) = False"

subsection \<open>Setting resolution\<close>

record setting_info =
  param_name :: string
  param_type :: stype
  cardinality :: cardinality
  requires_restart :: bool
  backend_setting :: "json option"
  affects_compilation :: json

text \<open>
  The loop over \<open>mro\<close> in \<open>_validate_op\<close>: the first type of the chain that has
  any referring link ends the walk, and the candidate is the first link of that
  type's referrers, whatever its source.
\<close>

fun find_candidate :: "schema \<Rightarrow> stype list \<Rightarrow> pointer option" where
  "find_candidate sch [] = None"
| "find_candidate sch (ct # rest) =
     (case get_referrers sch ct of
        [] \<Rightarrow> find_candidate sch rest
      | pointer_link # _ \<Rightarrow> Some pointer_link)"

text \<open>
  \<open>_validate_op\<close> from \<open>cfg_type = get_track_schema_type(...)\<close> to
  \<open>ptr = ptr_candidate\<close>: the resolution of a configuration object type.
\<close>

definition resolve_config_object ::
  "schema \<Rightarrow> stype \<Rightarrow> string \<Rightarrow> error + (pointer \<times> stype)" where
  "resolve_config_object sch cfg_host_type name =
     (case get_type sch name of
        None \<Rightarrow> Inl (ConfigurationError (Unrecognized_object name))
      | Some (ScalarType _) \<Rightarrow> Inl AssertionError
      | Some (ObjectType n) \<Rightarrow>
          (case find_candidate sch (ObjectType n # get_ancestors sch (ObjectType n)) of
             None \<Rightarrow> Inl (ConfigurationError (Cannot_be_configured_directly name))
           | Some ptr_candidate \<Rightarrow>
               (case ptr_source ptr_candidate of
                  None \<Rightarrow> Inl (ConfigurationError (Cannot_be_configured_directly name))
                | Some src \<Rightarrow>
                    if \<not> issubclass sch src cfg_host_type
                    then Inl (ConfigurationError (Cannot_be_configured_directly name))
                    else Inr (ptr_candidate, ObjectType n))))"

text \<open>
  \<open>_validate_op\<close> from \<open>assert isinstance(ptr, s_pointers.Pointer)\<close> to the end:
  the metadata of the resolved pointer.
\<close>

definition setting_of_pointer ::
  "schema \<Rightarrow> config_scope \<Rightarrow> string \<Rightarrow> stype \<Rightarrow> pointer \<Rightarrow> error + setting_info" where
  "setting_of_pointer sch scope name cfg_type ptr =
     (let system = (map_of (annotations ptr) ''system'' = Some ''true'') in
      case ptr_cardinality ptr of
        None \<Rightarrow> Inl AssertionError
      | Some crd \<Rightarrow>
          (let restart = (map_of (annotations ptr) ''requires_restart'' = Some ''true'') in
           case (case map_of (annotations ptr) ''backend_setting'' of
                   None \<Rightarrow> Inr None
                 | Some v \<Rightarrow> (case json_loads sch v of
                               None \<Rightarrow> Inl JSONDecodeError
                             | Some j \<Rightarrow> Inr (Some j))) of
             Inl e \<Rightarrow> Inl e
           | Inr backend \<Rightarrow>
               (case (case map_of (annotations ptr) ''affects_compilation'' of
                        None \<Rightarrow> Inr (JBool False)
                      | Some v \<Rightarrow> (case json_loads sch v of
                                    None \<Rightarrow> Inl JSONDecodeError
                                  | Some j \<Rightarrow> Inr j)) of
                  Inl e \<Rightarrow> Inl e
                | Inr compilation \<Rightarrow>
                    if system \<and> scope \<noteq> INSTANCE
                    then Inl (ConfigurationError (System_level_parameter name))
                    else Inr \<lparr>param_name = name, param_type = cfg_type, cardinality = crd,
                              requires_restart = restart, backend_setting = backend,
                              affects_compilation = compilation\<rparr>)))"

text \<open>
  \<open>_validate_op\<close>. A module qualifier is accepted when it is empty or \<open>cfg\<close>. The
  lookup of \<open>cfg::AbstractConfig\<close> has no default and raises when the type is
  missing.
\<close>

definition validate_op :: "schema \<Rightarrow> config_op \<Rightarrow> error + setting_info" where
  "validate_op sch expr =
     (if (case ref_module (op_name expr) of None \<Rightarrow> False | Some m \<Rightarrow> m \<noteq> [] \<and> m \<noteq> ''cfg'')
      then Inl (QueryError Invalid_module)
      else
        (let name = ref_name (op_name expr) in
         case get_type sch ''AbstractConfig'' of
           None \<Rightarrow> Inl (InvalidReferenceError ''cfg::AbstractConfig'')
         | Some (ScalarType _) \<Rightarrow> Inl AssertionError
         | Some (ObjectType h) \<Rightarrow>
             (case (if is_set_or_reset expr
                    then (case maybe_get_ptr sch (ObjectType h) name of
                            None \<Rightarrow> None
                          | Some ptr \<Rightarrow> map_option (Pair ptr) (ptr_target ptr))
                    else None) of
                Some (ptr, cfg_type) \<Rightarrow> setting_of_pointer sch (op_scope expr) name cfg_type ptr
              | None \<Rightarrow>
                  if is_config_set expr
                  then Inl (ConfigurationError (Unrecognized_parameter name))
                  else
                    (case resolve_config_object sch (ObjectType h) name of
                       Inl e \<Rightarrow> Inl e
                     | Inr (ptr, cfg_type) \<Rightarrow>
                         setting_of_pointer sch (op_scope expr) (shortname ptr) cfg_type ptr))))"

subsection \<open>The intermediate representation\<close>

text \<open>
  An \<open>irast.Set\<close>: the short name of the pointer it was reached by (\<open>rptr\<close>, when
  present), whether its type is an object type, its defining expression, and
  its shape (the elements; the operation paired with each element is not read).
\<close>

datatype irset = IRSet (rptr: "string option") (typeref_is_object: bool) (ir_expr: irexpr)
    (ir_shape: "irset list")
and irexpr = InsertStmt (subject: irset) | OtherStmt | NoExpr

datatype config_ir =
    ConfigResetIR string cardinality config_scope bool "json option" "irset option"
  | ConfigInsertIR string cardinality config_scope bool "json option" irset

fun isinstance_InsertStmt :: "irexpr \<Rightarrow> bool" where
  "isinstance_InsertStmt (InsertStmt _) = True"
| "isinstance_InsertStmt _ = False"

text \<open>
  \<open>_validate_config_object\<close>: the loop over the shape. The only statement that
  can raise is the assertion that an element has an \<open>rptr\<close>.
\<close>

fun validate_config_object :: "irset \<Rightarrow> error + unit"
  and validate_elements :: "irset list \<Rightarrow> error + unit" where
  "validate_config_object (IRSet r t e sh) = validate_elements sh"
| "validate_elements [] = Inr ()"
| "validate_elements (IRSet r t e sh # rest) =
     (case r of
        None \<Rightarrow> Inl AssertionError
      | Some n \<Rightarrow>
          if n = ''id'' then validate_elements rest
          else if t \<and> isinstance_InsertStmt e
          then (case validate_config_object (IRSet r t e sh) of
                  Inl err \<Rightarrow> Inl err
                | Inr _ \<Rightarrow> validate_elements rest)
          else validate_elements rest)"

text \<open>Every element of every shape of the tree has an \<open>rptr\<close>.\<close>

fun has_rptrs :: "irset \<Rightarrow> bool"
  and elements_have_rptrs :: "irset list \<Rightarrow> bool" where
  "has_rptrs (IRSet r t e sh) = elements_have_rptrs sh"
| "elements_have_rptrs [] = True"
| "elements_have_rptrs (IRSet r t e sh # rest) =
     (r \<noteq> None \<and> elements_have_rptrs sh \<and> elements_have_rptrs rest)"

text \<open>
  The elements the walk of \<open>_validate_config_object\<close> looks at, in order: the
  elements of the shape, and after each element that is not named \<open>id\<close>, is
  object-typed and is computed by an insert, the elements the walk looks at below it.
\<close>

fun visited :: "irset \<Rightarrow> irset list"
  and visited_elements :: "irset list \<Rightarrow> irset list" where
  "visited (IRSet r t e sh) = visited_elements sh"
| "visited_elements [] = []"
| "visited_elements (IRSet r t e sh # rest) =
     IRSet r t e sh
     # (if (case r of None \<Rightarrow> False | Some n \<Rightarrow> n \<noteq> ''id'') \<and> t \<and> isinstance_InsertStmt e
        then visited_elements sh else [])
     @ visited_elements rest"

subsection \<open>Compilation of RESET and INSERT\<close>

text \<open>
  \<open>_inject_tname\<close> mutates the syntax tree in place; the model returns the
  rewritten tree. \<open>inject_shape\<close> is the loop over a shape that both
  \<open>_inject_tname\<close> and \<open>compile_ConfigInsert\<close> run: only elements computed by
  an \<open>InsertQuery\<close> are visited. Reading \<open>subject.steps[0]\<close> fails on a subject
  that is not a path or has no steps.
\<close>

definition tname_element :: "step \<Rightarrow> shape_element" where
  "tname_element s =
     ShapeElement (Path [Ptr \<lparr>ref_name = ''_tname'', ref_module = None\<rparr>])
       (Some (Path [Introspect s, Ptr \<lparr>ref_name = ''name'', ref_module = None\<rparr>]))"

fun inject_tname :: "qlexpr \<Rightarrow> error + qlexpr"
  and inject_shape :: "shape_element list \<Rightarrow> error + shape_element list" where
  "inject_tname (InsertQuery subj shp) =
     (case inject_shape shp of
        Inl e \<Rightarrow> Inl e
      | Inr shp' \<Rightarrow>
          (case subj of
             Path [] \<Rightarrow> Inl IndexError
           | Path (ObjectRef r # _) \<Rightarrow> Inr (InsertQuery subj (shp' @ [tname_element (ObjectRef r)]))
           | Path (_ # _) \<Rightarrow> Inl AssertionError
           | _ \<Rightarrow> Inl AttributeError))"
| "inject_tname (SelectQuery a b) = Inr (SelectQuery a b)"
| "inject_tname (Shape a b) = Inr (Shape a b)"
| "inject_tname (Path a) = Inr (Path a)"
| "inject_tname (QLOther a) = Inr (QLOther a)"
| "inject_shape [] = Inr []"
| "inject_shape (ShapeElement e c # rest) =
     (case c of
        Some (InsertQuery subj shp) \<Rightarrow>
          (case inject_tname (InsertQuery subj shp) of
             Inl err \<Rightarrow> Inl err
           | Inr c' \<Rightarrow> map_sum id (Cons (ShapeElement e (Some c'))) (inject_shape rest))
      | _ \<Rightarrow> map_sum id (Cons (ShapeElement e c)) (inject_shape rest))"

text \<open>
  The compilation context. \<open>modaliases\<close> is a reference to a dictionary object;
  the dictionaries live in \<open>dicts\<close> (a reference is an index, \<open>dict.copy()\<close>
  appends a new object). A context made by \<open>newscope\<close> starts with the
  attributes of its parent, the reference included.
\<close>

record context_level =
  modaliases :: nat
  expr_exposed :: bool
  special_computables_in_mutation_shape :: "string set"

record cenv =
  dicts :: "(string option \<rightharpoonup> string) list"

definition dict_store :: "nat \<Rightarrow> string option \<Rightarrow> string \<Rightarrow> cenv \<Rightarrow> cenv" where
  "dict_store r k v st = st\<lparr>dicts := (dicts st)[r := (dicts st ! r)(k \<mapsto> v)]\<rparr>"

definition dict_copy :: "nat \<Rightarrow> cenv \<Rightarrow> nat \<times> cenv" where
  "dict_copy r st = (length (dicts st), st\<lparr>dicts := dicts st @ [dicts st ! r]\<rparr>)"

text \<open>
  The general expression compiler is a collaborator: \<open>cmp\<close> stands for
  \<open>dispatch.compile\<close> followed by \<open>setgen.ensure_set\<close>, a function of the
  expression, the context level and the dictionaries the context refers to.
\<close>

type_synonym compiler = "qlexpr \<Rightarrow> context_level \<Rightarrow> cenv \<Rightarrow> error + irset"

text \<open>
  \<open>compile_ConfigReset\<close>, for a \<open>ConfigReset\<close> node with name, scope and
  optional filter. The assignment \<open>ctx.modaliases[None] = 'cfg'\<close> writes into the
  dictionary the caller's context refers to.
\<close>

definition compile_ConfigReset ::
  "schema \<Rightarrow> compiler \<Rightarrow> objectref \<Rightarrow> config_scope \<Rightarrow> qlexpr option \<Rightarrow> context_level \<Rightarrow> cenv
     \<Rightarrow> (error + config_ir) \<times> cenv" where
  "compile_ConfigReset sch cmp nm scope filter_expr ctx st =
     (case validate_op sch (ConfigReset nm scope filter_expr) of
        Inl e \<Rightarrow> (Inl e, st)
      | Inr info \<Rightarrow>
          if \<not> is_object_type (param_type info) \<and> filter_expr \<noteq> None
          then (Inl (QueryError Reset_primitive_with_filter), st)
          else
            (case param_type info of
               ObjectType tn \<Rightarrow>
                 (let param_type_ref = ObjectRef \<lparr>ref_name = tn, ref_module = Some ''cfg''\<rparr>;
                      select = SelectQuery
                        (Shape (Path [param_type_ref])
                           (get_config_type_shape sch (param_type info) [param_type_ref]))
                        filter_expr;
                      st1 = dict_store (modaliases ctx) None ''cfg'' st
                  in case cmp select ctx st1 of
                       Inl e \<Rightarrow> (Inl e, st1)
                     | Inr select_ir \<Rightarrow>
                         (Inr (ConfigResetIR (param_name info) (cardinality info) scope
                                 (requires_restart info) (backend_setting info) (Some select_ir)),
                          st1))
             | ScalarType _ \<Rightarrow>
                 (Inr (ConfigResetIR (param_name info) (cardinality info) scope
                         (requires_restart info) (backend_setting info) None),
                  st)))"

text \<open>
  \<open>compile_ConfigInsert\<close>, for a \<open>ConfigInsert\<close> node with name, scope and
  shape. The subcontext gets a copy of the caller's dictionary, and the
  assignment of the default module goes into the copy.
\<close>

definition compile_ConfigInsert ::
  "schema \<Rightarrow> compiler \<Rightarrow> objectref \<Rightarrow> config_scope \<Rightarrow> shape_element list \<Rightarrow> context_level
     \<Rightarrow> cenv \<Rightarrow> (error + config_ir) \<times> cenv" where
  "compile_ConfigInsert sch cmp nm scope shp ctx st =
     (case validate_op sch (ConfigInsert nm scope shp) of
        Inl e \<Rightarrow> (Inl e, st)
      | Inr info \<Rightarrow>
          if scope \<noteq> INSTANCE then (Inl (UnsupportedFeatureError scope), st)
          else if \<not> get_object sch (ref_name nm)
          then (Inl (ConfigurationError (Not_a_valid_item (ref_name nm))), st)
          else
            (case inject_shape shp of
               Inl e \<Rightarrow> (Inl e, st)
             | Inr shp' \<Rightarrow>
                 (let insert_stmt = InsertQuery
                        (Path [ObjectRef \<lparr>ref_name = ref_name nm, ref_module = Some ''cfg''\<rparr>])
                        shp';
                      (r, st1) = dict_copy (modaliases ctx) st;
                      st2 = dict_store r None ''cfg'' st1;
                      subctx = ctx\<lparr>expr_exposed := True, modaliases := r,
                        special_computables_in_mutation_shape :=
                          insert ''_tname'' (special_computables_in_mutation_shape ctx)\<rparr>
                  in case cmp insert_stmt subctx st2 of
                       Inl e \<Rightarrow> (Inl e, st2)
                     | Inr insert_ir_set \<Rightarrow>
                         (case ir_expr insert_ir_set of
                            InsertStmt insert_subject \<Rightarrow>
                              (case validate_config_object insert_subject of
                                 Inl e \<Rightarrow> (Inl e, st2)
                               | Inr _ \<Rightarrow>
                                   (Inr (ConfigInsertIR (param_name info) (cardinality info) scope
                                           (requires_restart info) (backend_setting info)
                                           insert_subject),
                                    st2))
                          | _ \<Rightarrow> (Inl AssertionError, st2)))))"

subsection \<open>The specification's wording, for comparison\<close>

text \<open>
  The shape check as the specification words it: every element other than the
  identity field is a non-object value or a nested insert, checked recursively
  into nested inserts.
\<close>

fun spec_shape_ok :: "irset \<Rightarrow> bool"
  and spec_elements_ok :: "irset list \<Rightarrow> bool" where
  "spec_shape_ok (IRSet r t e sh) = spec_elements_ok sh"
| "spec_elements_ok [] = True"
| "spec_elements_ok (IRSet r t e sh # rest) =
     ((if r = Some ''id'' then True
       else if t then isinstance_InsertStmt e \<and> spec_shape_ok (IRSet r t e sh)
       else True)
      \<and> spec_elements_ok rest)"

text \<open>
  The link search as the specification words it: walking the chain, the first
  link whose target is the type at hand and whose source is under the root
  configuration object.
\<close>

fun spec_find_link :: "schema \<Rightarrow> stype \<Rightarrow> stype list \<Rightarrow> pointer option" where
  "spec_find_link sch root [] = None"
| "spec_find_link sch root (ct # rest) =
     (case filter (\<lambda>l. case ptr_source l of None \<Rightarrow> False | Some src \<Rightarrow> issubclass sch src root)
             (get_referrers sch ct) of
        [] \<Rightarrow> spec_find_link sch root rest
      | l # _ \<Rightarrow> Some l)"

section \<open>Example inputs\<close>



definition listener0 :: listener where
  "listener0 = \<lparr>cls = ManagementPort, nethost = ''localhost'', netport = 10701,
     kwargs = MgmtKwargs False (0, 11) None, running = True\<rparr>"

definition server0 :: server where
  "server0 = \<lparr>heap = [listener0], mgmt_port = Some 0, mgmt_host_addr = ''localhost'',
     mgmt_port_no = 10701, mgmt_protocol_max = (0, 11), auto_shutdown = False,
     sys_conf_ports = Map.empty, sys_auth = [], cfg_auth = None, logged = []\<rparr>"

definition env_start_fails :: restart_env where
  "env_start_fails = \<lparr>stop_old = None, construct_new = None,
     start_new = Some (HookError ''address already in use''), stop_new = None,
     restart_old = None\<rparr>"

definition env_rollback_fails :: restart_env where
  "env_rollback_fails = \<lparr>stop_old = None, construct_new = None,
     start_new = Some (HookError ''address already in use''), stop_new = None,
     restart_old = Some (HookError ''cannot restart the original'')\<rparr>"

definition portconf0 :: portconf where
  "portconf0 = \<lparr>protocol = ''edgeql+http'', address = ''localhost'', port = 8889,
     database = ''edgedb'', user = ''edgedb'', concurrency = 4\<rparr>"

definition env_port_start_fails :: start_env where
  "env_port_start_fails = \<lparr>construct_port = None,
     start_port = Some (HookError ''address already in use''), stop_port = None\<rparr>"

definition auth_trust :: auth where
  "auth_trust = \<lparr>priority = 0, auth_user = [''*''], auth_method = Trust\<rparr>"

definition auth_scram :: auth where
  "auth_scram = \<lparr>priority = 5, auth_user = [''alice''], auth_method = SCRAM\<rparr>"

definition auth_link :: pointer where
  "auth_link = \<lparr>shortname = ''auth'', ptr_source = Some (ObjectType ''AbstractConfig''),
     ptr_target = Some (ObjectType ''Auth''), ptr_cardinality = Some Many,
     annotations = [(''system'', ''true'')]\<rparr>"

definition method_link :: pointer where
  "method_link = \<lparr>shortname = ''method'', ptr_source = Some (ObjectType ''Auth''),
     ptr_target = Some (ObjectType ''AuthMethod''), ptr_cardinality = Some One,
     annotations = []\<rparr>"

definition sessobj_link :: pointer where
  "sessobj_link = \<lparr>shortname = ''sessobj'', ptr_source = Some (ObjectType ''AbstractConfig''),
     ptr_target = Some (ObjectType ''TestSessionConfig''), ptr_cardinality = Some Many,
     annotations = []\<rparr>"

definition special_link :: pointer where
  "special_link = \<lparr>shortname = ''special'', ptr_source = Some (ObjectType ''Journal''),
     ptr_target = Some (ObjectType ''SpecialAuth''), ptr_cardinality = Some One,
     annotations = []\<rparr>"

definition listen_port_ptr :: pointer where
  "listen_port_ptr = \<lparr>shortname = ''listen_port'',
     ptr_source = Some (ObjectType ''AbstractConfig''),
     ptr_target = Some (ScalarType ''int16''), ptr_cardinality = Some One,
     annotations = [(''system'', ''true'')]\<rparr>"

definition schema0 :: schema where
  "schema0 = \<lparr>
     get_type = (\<lambda>n. if n \<in> set [''AbstractConfig'', ''Auth'', ''AuthMethod'', ''Trust'',
                                   ''SpecialAuth'', ''TestSessionConfig'']
                      then Some (ObjectType n) else None),
     get_object = (\<lambda>n. n \<in> set [''AbstractConfig'', ''Auth'', ''AuthMethod'', ''Trust'',
                                   ''SpecialAuth'', ''TestSessionConfig'']),
     maybe_get_ptr = (\<lambda>t n. if t = ObjectType ''AbstractConfig''
                           then map_of [(''auth'', auth_link), (''sessobj'', sessobj_link),
                                        (''listen_port'', listen_port_ptr)] n
                           else None),
     get_ancestors = (\<lambda>t. if t = ObjectType ''Trust'' then [ObjectType ''AuthMethod'']
                          else if t = ObjectType ''SpecialAuth'' then [ObjectType ''Auth'']
                          else []),
     get_referrers = (\<lambda>t. if t = ObjectType ''Auth'' then [auth_link]
                          else if t = ObjectType ''AuthMethod'' then [method_link]
                          else if t = ObjectType ''SpecialAuth'' then [special_link]
                          else if t = ObjectType ''TestSessionConfig'' then [sessobj_link]
                          else []),
     get_config_type_shape = (\<lambda>t path. []),
     json_loads = (\<lambda>v. if v = ''true'' then Some (JBool True)
                       else if v = ''false'' then Some (JBool False)
                       else None)\<rparr>"

definition name_of :: "string \<Rightarrow> objectref" where
  "name_of n = \<lparr>ref_name = n, ref_module = None\<rparr>"

text \<open>
  The compiled subject of an insert of \<open>Auth\<close> whose \<open>method\<close> is a reference to
  an existing object (a \<open>SELECT\<close>, not a nested \<open>INSERT\<close>).
\<close>

definition subject_with_reference :: irset where
  "subject_with_reference =
     IRSet None True NoExpr
       [IRSet (Some ''id'') False NoExpr [],
        IRSet (Some ''priority'') False OtherStmt [],
        IRSet (Some ''method'') True OtherStmt []]"

definition compiler0 :: compiler where
  "compiler0 q ctx st =
     (case q of
        InsertQuery _ _ \<Rightarrow> Inr (IRSet None True (InsertStmt subject_with_reference) [])
      | _ \<Rightarrow> Inr (IRSet None True OtherStmt []))"

definition ctx0 :: context_level where
  "ctx0 = \<lparr>modaliases = 0, expr_exposed = False, special_computables_in_mutation_shape = {}\<rparr>"

definition cenv0 :: cenv where
  "cenv0 = \<lparr>dicts = [[None \<mapsto> ''default'']]\<rparr>"

text \<open>Three callers acquire in turn; the first two release.\<close>

definition three_waiters :: "event list" where
  "three_waiters = [Acquire 1, Acquire 2, Acquire 3, Release 1, Release 2]"

text \<open>
  A compiled subject whose \<open>method\<close> is a nested insert with an element that has no
  \<open>rptr\<close>, and a compiler that yields it.
\<close>

definition nested_insert_without_rptr :: irset where
  "nested_insert_without_rptr =
     IRSet None True NoExpr
       [IRSet (Some ''priority'') False OtherStmt [],
        IRSet (Some ''method'') True (InsertStmt (IRSet None True NoExpr []))
          [IRSet None False OtherStmt []]]"

definition compiler1 :: compiler where
  "compiler1 q ctx st = Inr (IRSet None True (InsertStmt nested_insert_without_rptr) [])"

section \<open>Properties of the server\<close>

lemma deref_set_running:
  "deref (set_running b p s) q =
     (if q = p then map_option (\<lambda>l. l\<lparr>running := b\<rparr>) (deref s q) else deref s q)"
  by (auto simp: deref_def set_running_def)

lemma restart_original_ok:
  "restart_old env = None \<Longrightarrow>
     restart_original env old e s = (Inl e, set_running True old s)"
  by (simp add: restart_original_def port_start_def)

lemma restart_original_fails:
  "restart_old env = Some e' \<Longrightarrow> restart_original env old e s = (Inl e', s)"
  by (simp add: restart_original_def port_start_def)

text \<open>
  A start that is cancelled passes through the handlers: the cancellation is raised, and
  the original listener is left stopped.
\<close>

lemma restart_mgmt_port_cancelled:
  "fst (restart_mgmt_port (env_start_fails\<lparr>start_new := Some CancelledError\<rparr>)
          ''0.0.0.0'' 10702 server0) = Inl CancelledError
   \<and> map_option running
        (deref (snd (restart_mgmt_port (env_start_fails\<lparr>start_new := Some CancelledError\<rparr>)
                       ''0.0.0.0'' 10702 server0)) 0) = Some False"
  by (simp add: restart_mgmt_port_def port_stop_def port_start_def new_port_def
      set_running_def deref_def server0_def listener0_def env_start_fails_def)

text \<open>
  C1: a failure is an \<open>Exception\<close>, which is what the handlers of the function catch.
  When the original listener stops, the replacement's construction or start raises the
  exception e, the restart of the original is reached (the clean-up stop of the
  replacement returns or raises an exception) and succeeds, then _restart_mgmt_port
  raises e, the original listener object is running again with the host and port it had,
  and the recorded management listener, host and port are unchanged.
\<close>

theorem restart_mgmt_port_rollback:
  assumes cur: "mgmt_port s = Some old" "deref s old = Some l0"
    and stp: "stop_old env = None"
    and fail: "construct_new env = Some e \<or> (construct_new env = None \<and> start_new env = Some e)"
    and exn: "is_Exception e"
    and cleanup: "case stop_new env of None \<Rightarrow> True | Some x \<Rightarrow> is_Exception x"
    and bck: "restart_old env = None"
  shows "fst (restart_mgmt_port env h n s) = Inl e
       \<and> mgmt_port (snd (restart_mgmt_port env h n s)) = Some old
       \<and> mgmt_host_addr (snd (restart_mgmt_port env h n s)) = mgmt_host_addr s
       \<and> mgmt_port_no (snd (restart_mgmt_port env h n s)) = mgmt_port_no s
       \<and> deref (snd (restart_mgmt_port env h n s)) old = Some (l0\<lparr>running := True\<rparr>)"
  using fail
proof
  assume "construct_new env = Some e"
  with cur stp bck exn show ?thesis
    by (simp add: restart_mgmt_port_def port_stop_def new_port_def restart_original_ok
        deref_set_running) (simp add: set_running_def)
next
  assume "construct_new env = None \<and> start_new env = Some e"
  with cur stp bck exn cleanup show ?thesis
    apply (simp add: restart_mgmt_port_def port_stop_def port_start_def new_port_def
        restart_original_ok deref_set_running split: option.splits)
    apply (auto simp: set_running_def log_msg_def deref_def nth_append split: if_splits)
    done
qed

theorem restart_mgmt_port_rollback_witness:
  "mgmt_port server0 = Some 0 \<and> deref server0 0 = Some listener0
   \<and> stop_old env_start_fails = None
   \<and> construct_new env_start_fails = None
   \<and> start_new env_start_fails = Some (HookError ''address already in use'')
   \<and> is_Exception (HookError ''address already in use'')
   \<and> stop_new env_start_fails = None
   \<and> restart_old env_start_fails = None
   \<and> fst (restart_mgmt_port env_start_fails ''0.0.0.0'' 10702 server0)
       = Inl (HookError ''address already in use'')
   \<and> mgmt_port (snd (restart_mgmt_port env_start_fails ''0.0.0.0'' 10702 server0)) = Some 0
   \<and> mgmt_host_addr (snd (restart_mgmt_port env_start_fails ''0.0.0.0'' 10702 server0))
       = ''localhost''
   \<and> mgmt_port_no (snd (restart_mgmt_port env_start_fails ''0.0.0.0'' 10702 server0)) = 10701
   \<and> deref (snd (restart_mgmt_port env_start_fails ''0.0.0.0'' 10702 server0)) 0
       = Some listener0"
  using restart_mgmt_port_rollback [of server0 0 listener0 env_start_fails
      "HookError ''address already in use''" "''0.0.0.0''" 10702]
  by (simp add: server0_def listener0_def env_start_fails_def deref_def)

text \<open>
  C6, as stated, fails: the replacement fails to start with one error, the restart of
  the original fails with another; the second error is the one raised, and nothing is
  logged.
\<close>

theorem restart_mgmt_port_rollback_failure_counterexample:
  "fst (restart_mgmt_port env_rollback_fails ''0.0.0.0'' 10702 server0)
     = Inl (HookError ''cannot restart the original'')
   \<and> fst (restart_mgmt_port env_rollback_fails ''0.0.0.0'' 10702 server0)
     \<noteq> Inl (HookError ''address already in use'')
   \<and> logged (snd (restart_mgmt_port env_rollback_fails ''0.0.0.0'' 10702 server0)) = []"
  by (simp add: restart_mgmt_port_def restart_original_def port_stop_def port_start_def
      new_port_def set_running_def log_msg_def server0_def listener0_def env_rollback_fails_def)

text \<open>
  C6, amended: a failure is an \<open>Exception\<close>. When the replacement is constructed and
  its start raises the exception e, a clean-up stop of the replacement that raises an
  exception is logged and not propagated; when the restart of the original then raises
  e', that rollback failure is not logged, and e' is what is raised to the caller, in
  place of e. The recorded management listener is still the original.
\<close>

theorem restart_mgmt_port_rollback_failure:
  assumes cur: "mgmt_port s = Some old"
    and stp: "stop_old env = None"
    and fail: "construct_new env = None" "start_new env = Some e"
    and exn: "is_Exception e"
    and cleanup: "case stop_new env of None \<Rightarrow> True | Some x \<Rightarrow> is_Exception x"
    and bck: "restart_old env = Some e'"
  shows "fst (restart_mgmt_port env h n s) = Inl e'
       \<and> logged (snd (restart_mgmt_port env h n s))
           = logged s @ (case stop_new env of None \<Rightarrow> []
                         | Some _ \<Rightarrow> [''could not stop the new server''])
       \<and> mgmt_port (snd (restart_mgmt_port env h n s)) = Some old"
  using assms
  by (auto simp: restart_mgmt_port_def port_stop_def port_start_def new_port_def
      restart_original_fails set_running_def log_msg_def split: option.splits)

theorem restart_mgmt_port_rollback_failure_witness:
  "mgmt_port server0 = Some 0 \<and> stop_old env_rollback_fails = None
   \<and> construct_new env_rollback_fails = None
   \<and> start_new env_rollback_fails = Some (HookError ''address already in use'')
   \<and> is_Exception (HookError ''address already in use'')
   \<and> stop_new (env_rollback_fails\<lparr>stop_new := Some (HookError ''not serving'')\<rparr>)
       = Some (HookError ''not serving'')
   \<and> is_Exception (HookError ''not serving'')
   \<and> restart_old env_rollback_fails = Some (HookError ''cannot restart the original'')
   \<and> fst (restart_mgmt_port (env_rollback_fails\<lparr>stop_new := Some (HookError ''not serving'')\<rparr>)
            ''0.0.0.0'' 10702 server0)
       = Inl (HookError ''cannot restart the original'')
   \<and> logged (snd (restart_mgmt_port
                    (env_rollback_fails\<lparr>stop_new := Some (HookError ''not serving'')\<rparr>)
                    ''0.0.0.0'' 10702 server0))
       = [''could not stop the new server'']
   \<and> mgmt_port (snd (restart_mgmt_port
                       (env_rollback_fails\<lparr>stop_new := Some (HookError ''not serving'')\<rparr>)
                       ''0.0.0.0'' 10702 server0)) = Some 0"
  using restart_mgmt_port_rollback_failure [of server0 0
      "env_rollback_fails\<lparr>stop_new := Some (HookError ''not serving'')\<rparr>"
      "HookError ''address already in use''" "HookError ''cannot restart the original''"
      "''0.0.0.0''" 10702]
  by (simp add: server0_def env_rollback_fails_def)

text \<open>
  C4 fails on the code: with suppress_errors set, a port whose start hook raises is
  stopped, logged, and then stored in the registry under its key; without
  suppress_errors the same start leaves no registration.
\<close>

theorem start_portconf_suppressed_failure_registers:
  "sys_conf_ports server0 portconf0 = None
   \<and> fst (start_portconf env_port_start_fails portconf0 True server0) = Inr (Some 1)
   \<and> sys_conf_ports (snd (start_portconf env_port_start_fails portconf0 True server0)) portconf0
       = Some 1
   \<and> map_option running
        (deref (snd (start_portconf env_port_start_fails portconf0 True server0)) 1)
       = Some False
   \<and> fst (start_portconf env_port_start_fails portconf0 False server0)
       = Inl (HookError ''address already in use'')
   \<and> sys_conf_ports (snd (start_portconf env_port_start_fails portconf0 False server0)) portconf0
       = None"
  by (simp add: start_portconf_def port_cls_of_def new_port_def port_start_def port_stop_def
      set_running_def log_msg_def deref_def server0_def portconf0_def env_port_start_fails_def)

text \<open>
  C8: after an add or a remove of the auth setting, the after-hook sets the cached list
  to the authentication rules of the current system configuration in ascending order of
  priority (a stable sort: the same rules, none lost or added).
\<close>

theorem after_auth_hooks_sorted:
  "sys_auth (after_system_config_add ''auth'' v s)
     = sort_key priority (case cfg_auth s of None \<Rightarrow> [] | Some xs \<Rightarrow> xs)
   \<and> sys_auth (after_system_config_rem ''auth'' v s)
     = sort_key priority (case cfg_auth s of None \<Rightarrow> [] | Some xs \<Rightarrow> xs)
   \<and> sorted (map priority (sys_auth (after_system_config_add ''auth'' v s)))
   \<and> sorted (map priority (sys_auth (after_system_config_rem ''auth'' v s)))
   \<and> mset (sys_auth (after_system_config_add ''auth'' v s))
     = mset (case cfg_auth s of None \<Rightarrow> [] | Some xs \<Rightarrow> xs)
   \<and> mset (sys_auth (after_system_config_rem ''auth'' v s))
     = mset (case cfg_auth s of None \<Rightarrow> [] | Some xs \<Rightarrow> xs)"
  by (simp add: after_system_config_add_def after_system_config_rem_def populate_sys_auth_def)

theorem after_auth_hooks_sorted_witness:
  "sys_auth (after_system_config_add ''auth'' auth_trust
       (server0\<lparr>cfg_auth := Some [auth_scram, auth_trust]\<rparr>)) = [auth_trust, auth_scram]
   \<and> sys_auth (after_system_config_rem ''auth'' auth_scram
       (server0\<lparr>cfg_auth := Some [auth_trust], sys_auth := [auth_trust, auth_scram]\<rparr>))
     = [auth_trust]"
  using after_auth_hooks_sorted [of auth_trust "server0\<lparr>cfg_auth := Some [auth_scram, auth_trust]\<rparr>"]
    after_auth_hooks_sorted [of auth_scram
      "server0\<lparr>cfg_auth := Some [auth_trust], sys_auth := [auth_trust, auth_scram]\<rparr>"]
  by (simp add: server0_def auth_trust_def auth_scram_def)

lemma first_match_None:
  "\<forall>a \<in> set xs. u \<notin> set (auth_user a) \<and> ''*'' \<notin> set (auth_user a) \<Longrightarrow> first_match u xs = None"
  by (induction xs) auto

text \<open>
  C9: get_auth_method returns a default SCRAM method when the cached list is empty; when
  the list is not empty and no rule's user set contains the user or the wildcard, it
  returns None.
\<close>

theorem get_auth_method_default_or_none:
  "(sys_auth s = [] \<longrightarrow> get_auth_method u s = Some SCRAM)
   \<and> (sys_auth s \<noteq> []
        \<and> (\<forall>a \<in> set (sys_auth s). u \<notin> set (auth_user a) \<and> ''*'' \<notin> set (auth_user a))
      \<longrightarrow> get_auth_method u s = None)"
  by (simp add: get_auth_method_def first_match_None)

theorem get_auth_method_default_or_none_witness:
  "sys_auth server0 = [] \<and> get_auth_method ''bob'' server0 = Some SCRAM
   \<and> sys_auth (server0\<lparr>sys_auth := [auth_scram]\<rparr>) \<noteq> []
   \<and> ''bob'' \<notin> set (auth_user auth_scram) \<and> ''*'' \<notin> set (auth_user auth_scram)
   \<and> get_auth_method ''bob'' (server0\<lparr>sys_auth := [auth_scram]\<rparr>) = None"
  using get_auth_method_default_or_none [of server0 "''bob''"]
    get_auth_method_default_or_none [of "server0\<lparr>sys_auth := [auth_scram]\<rparr>" "''bob''"]
  by (simp add: server0_def auth_scram_def)

subsection \<open>The arbitrator\<close>

lemma arb_step_no_barging:
  "items a \<noteq> [] \<longrightarrow> waiting a = [] \<Longrightarrow>
     items (arb_step ev a) \<noteq> [] \<longrightarrow> waiting (arb_step ev a) = []"
  by (cases ev) (auto simp: queue_get_def queue_put_nowait_def split: list.splits)

lemma arb_step_order:
  "items a \<noteq> [] \<longrightarrow> waiting a = [] \<Longrightarrow>
     granted (arb_step ev a) @ waiting (arb_step ev a)
       = granted a @ waiting a @ acquirers [ev]"
  by (cases ev) (auto simp: queue_get_def queue_put_nowait_def split: list.splits)

lemma acquirers_Cons: "acquirers (ev # evs) = acquirers [ev] @ acquirers evs"
  by (cases ev) simp_all

lemma arb_run_order:
  "items a \<noteq> [] \<longrightarrow> waiting a = [] \<Longrightarrow>
     granted (arb_run evs a) @ waiting (arb_run evs a) = granted a @ waiting a @ acquirers evs"
proof (induction evs arbitrary: a)
  case Nil
  show ?case by simp
next
  case (Cons ev evs)
  have "granted (arb_run evs (arb_step ev a)) @ waiting (arb_run evs (arb_step ev a))
      = granted (arb_step ev a) @ waiting (arb_step ev a) @ acquirers evs"
    by (rule Cons.IH) (rule arb_step_no_barging [OF Cons.prems])
  also have "\<dots> = (granted a @ waiting a @ acquirers [ev]) @ acquirers evs"
    using arb_step_order [OF Cons.prems, of ev] by simp
  finally show ?case
    using acquirers_Cons [of ev evs] by simp
qed

lemma arb_run_no_barging:
  "items a \<noteq> [] \<longrightarrow> waiting a = [] \<Longrightarrow>
     items (arb_run evs a) \<noteq> [] \<longrightarrow> waiting (arb_run evs a) = []"
proof (induction evs arbitrary: a)
  case Nil
  then show ?case by simp
next
  case (Cons ev evs)
  show ?case
    using Cons.IH [OF arb_step_no_barging [OF Cons.prems]] by simp
qed

lemma arb_step_one_handle:
  assumes "length (items a) + length (holding a) = 1"
    and "holding a \<noteq> [] \<longrightarrow> holding a = [last (granted a)]"
    and "case ev of Acquire c \<Rightarrow> True | Release c \<Rightarrow> c \<in> set (holding a)"
  shows "length (items (arb_step ev a)) + length (holding (arb_step ev a)) = 1
       \<and> (holding (arb_step ev a) \<noteq> []
            \<longrightarrow> holding (arb_step ev a) = [last (granted (arb_step ev a))])"
proof (cases ev)
  case (Acquire c)
  with assms(1,2) show ?thesis
    by (auto simp: queue_get_def split: list.splits)
next
  case (Release c)
  with assms(3) have "c \<in> set (holding a)" by simp
  with assms(1) have "holding a = [c]" "items a = []"
    by (cases "holding a"; auto)+
  with Release show ?thesis
    by (auto simp: queue_put_nowait_def split: list.splits)
qed

lemma arb_run_one_handle:
  "length (items a) + length (holding a) = 1 \<Longrightarrow>
   holding a \<noteq> [] \<longrightarrow> holding a = [last (granted a)] \<Longrightarrow> disciplined a evs \<Longrightarrow>
     length (items (arb_run evs a)) + length (holding (arb_run evs a)) = 1
     \<and> (holding (arb_run evs a) \<noteq> []
          \<longrightarrow> holding (arb_run evs a) = [last (granted (arb_run evs a))])"
proof (induction evs arbitrary: a)
  case Nil
  then show ?case by simp
next
  case (Cons ev evs)
  have d: "disciplined (arb_step ev a) evs"
    and h: "case ev of Acquire c \<Rightarrow> True | Release c \<Rightarrow> c \<in> set (holding a)"
    using Cons.prems(3) by (cases ev; simp)+
  note s = arb_step_one_handle [OF Cons.prems(1) Cons.prems(2) h]
  show ?case
    using Cons.IH [OF conjunct1 [OF s] conjunct2 [OF s] d] by simp
qed

lemma disciplined_take: "disciplined a evs \<Longrightarrow> disciplined a (take n evs)"
proof (induction evs arbitrary: a n)
  case Nil
  show ?case by simp
next
  case (Cons ev evs)
  show ?case
  proof (cases n)
    case 0
    then show ?thesis by simp
  next
    case (Suc m)
    with Cons show ?thesis by (cases ev) simp_all
  qed
qed

lemma init_sys_pgcon_waiters_eq:
  "init_sys_pgcon_waiters = \<lparr>items = [SysPgcon], waiting = [], holding = [], granted = []\<rparr>"
  by (simp add: init_sys_pgcon_waiters_def queue_put_nowait_def)

text \<open>
  C3: from the state \<open>init\<close> leaves, after any sequence of acquire and release events
  the callers granted the handle so far, followed by the callers still waiting, are the
  callers in the order of their acquire requests: grants follow the order of enqueueing,
  whenever the releases come; and no caller waits while the handle lies in the queue.
  When every release is made by a caller holding the handle, then at every moment at most
  one caller holds it: the handle is either in the queue or with the caller granted last.
\<close>

theorem sys_pgcon_fifo_single_holder:
  "granted (arb_run evs init_sys_pgcon_waiters) @ waiting (arb_run evs init_sys_pgcon_waiters)
     = acquirers evs
   \<and> (items (arb_run evs init_sys_pgcon_waiters) \<noteq> []
        \<longrightarrow> waiting (arb_run evs init_sys_pgcon_waiters) = [])
   \<and> (disciplined init_sys_pgcon_waiters evs \<longrightarrow>
        (\<forall>n. length (holding (arb_run (take n evs) init_sys_pgcon_waiters)) \<le> 1
           \<and> length (items (arb_run (take n evs) init_sys_pgcon_waiters))
               + length (holding (arb_run (take n evs) init_sys_pgcon_waiters)) = 1
           \<and> (holding (arb_run (take n evs) init_sys_pgcon_waiters) \<noteq> [] \<longrightarrow>
                holding (arb_run (take n evs) init_sys_pgcon_waiters)
                  = [last (granted (arb_run (take n evs) init_sys_pgcon_waiters))])))"
proof -
  have fifo: "granted (arb_run evs init_sys_pgcon_waiters)
        @ waiting (arb_run evs init_sys_pgcon_waiters) = acquirers evs"
    using arb_run_order [of init_sys_pgcon_waiters evs]
    by (simp add: init_sys_pgcon_waiters_eq)
  have idle: "items (arb_run evs init_sys_pgcon_waiters) \<noteq> []
        \<longrightarrow> waiting (arb_run evs init_sys_pgcon_waiters) = []"
    by (rule arb_run_no_barging) (simp add: init_sys_pgcon_waiters_eq)
  have one: "length (holding (arb_run (take n evs) init_sys_pgcon_waiters)) \<le> 1
           \<and> length (items (arb_run (take n evs) init_sys_pgcon_waiters))
               + length (holding (arb_run (take n evs) init_sys_pgcon_waiters)) = 1
           \<and> (holding (arb_run (take n evs) init_sys_pgcon_waiters) \<noteq> [] \<longrightarrow>
                holding (arb_run (take n evs) init_sys_pgcon_waiters)
                  = [last (granted (arb_run (take n evs) init_sys_pgcon_waiters))])"
    if "disciplined init_sys_pgcon_waiters evs" for n
    using arb_run_one_handle [of init_sys_pgcon_waiters "take n evs"]
      disciplined_take [OF that, of n]
    by (simp add: init_sys_pgcon_waiters_eq)
  from fifo idle one show ?thesis by blast
qed

theorem sys_pgcon_fifo_single_holder_witness:
  "disciplined init_sys_pgcon_waiters three_waiters
   \<and> acquirers three_waiters = [1, 2, 3]
   \<and> granted (arb_run three_waiters init_sys_pgcon_waiters) = [1, 2, 3]
   \<and> waiting (arb_run three_waiters init_sys_pgcon_waiters) = []
   \<and> holding (arb_run three_waiters init_sys_pgcon_waiters) = [3]
   \<and> granted (arb_run (take 3 three_waiters) init_sys_pgcon_waiters) = [1]
   \<and> waiting (arb_run (take 3 three_waiters) init_sys_pgcon_waiters) = [2, 3]
   \<and> length (holding (arb_run (take 3 three_waiters) init_sys_pgcon_waiters)) \<le> 1"
  using sys_pgcon_fifo_single_holder [of three_waiters]
  by (simp add: three_waiters_def init_sys_pgcon_waiters_eq queue_get_def queue_put_nowait_def)

section \<open>Properties of the CONFIGURE compiler\<close>

lemmas schema0_defs = schema0_def name_of_def auth_link_def method_link_def sessobj_link_def
  special_link_def listen_port_ptr_def

lemmas validate_op_defs = validate_op_def resolve_config_object_def setting_of_pointer_def
  issubclass_def

lemma validate_has_rptrs:
  "has_rptrs e \<Longrightarrow> validate_config_object e = Inr ()"
  "elements_have_rptrs es \<Longrightarrow> validate_elements es = Inr ()"
  by (induction e and es rule: validate_config_object_validate_elements.induct)
    (auto split: option.splits sum.splits)

lemma validate_visited:
  "validate_config_object e
     = (if list_all (\<lambda>x. rptr x \<noteq> None) (visited e) then Inr () else Inl AssertionError)"
  "validate_elements es
     = (if list_all (\<lambda>x. rptr x \<noteq> None) (visited_elements es) then Inr ()
        else Inl AssertionError)"
proof (induction e and es rule: validate_config_object_validate_elements.induct)
  case (1 r t e sh)
  then show ?case by simp
next
  case 2
  show ?case by simp
next
  case (3 r t e sh rest)
  show ?case
  proof (cases r)
    case None
    then show ?thesis by simp
  next
    case (Some n)
    show ?thesis
    proof (cases "n = ''id''")
      case True
      with Some 3(1) [of n] show ?thesis by simp
    next
      case False
      show ?thesis
      proof (cases "t \<and> isinstance_InsertStmt e")
        case True
        with Some False 3(2) [of n] 3(3) [of n] show ?thesis
          by (auto split: sum.splits)
      next
        case False': False
        with Some False 3(4) [of n] show ?thesis by auto
      qed
    qed
  qed
qed

lemma compile_ConfigInsert_walk:
  assumes "validate_op sch (ConfigInsert nm INSTANCE shp) = Inr info"
    and "get_object sch (ref_name nm)"
    and "inject_shape shp = Inr shp'"
    and "cmp (InsertQuery (Path [ObjectRef \<lparr>ref_name = ref_name nm, ref_module = Some ''cfg''\<rparr>]) shp')
           (ctx\<lparr>expr_exposed := True, modaliases := length (dicts st),
                special_computables_in_mutation_shape :=
                  insert ''_tname'' (special_computables_in_mutation_shape ctx)\<rparr>)
           (dict_store (length (dicts st)) None ''cfg'' (snd (dict_copy (modaliases ctx) st)))
         = Inr insert_ir_set"
    and "ir_expr insert_ir_set = InsertStmt subj"
  shows "fst (compile_ConfigInsert sch cmp nm INSTANCE shp ctx st)
       = (if list_all (\<lambda>x. rptr x \<noteq> None) (visited subj)
          then Inr (ConfigInsertIR (param_name info) (cardinality info) INSTANCE
                      (requires_restart info) (backend_setting info) subj)
          else Inl AssertionError)"
  using assms
  by (simp add: compile_ConfigInsert_def dict_copy_def validate_visited(1) Let_def)

text \<open>
  C2, as stated, fails: a shape whose \<open>method\<close> element is object-typed and is not an insert
  passes the check, and the CONFIGURE INSTANCE INSERT that compiles to it succeeds.
\<close>

theorem validate_config_object_counterexample:
  "validate_config_object subject_with_reference = Inr ()
   \<and> \<not> spec_shape_ok subject_with_reference
   \<and> fst (compile_ConfigInsert schema0 compiler0 (name_of ''Auth'') INSTANCE [] ctx0 cenv0)
       = Inr (ConfigInsertIR ''auth'' Many INSTANCE False None subject_with_reference)"
  by (simp add: compile_ConfigInsert_def validate_op_defs schema0_defs compiler0_def
      subject_with_reference_def dict_copy_def dict_store_def ctx0_def cenv0_def)

text \<open>
  C2, amended: the check walks the compiled shape: it looks at every element, skips the
  identity field and descends into object-typed nested inserts only. It rejects nothing:
  its result is decided by the one assertion that each element it looks at has an rptr,
  so a tree whose elements all have one is accepted, references to existing objects
  included. A CONFIGURE INSTANCE INSERT whose target resolves and whose insert compiles
  succeeds exactly when that assertion holds on the walk, and fails with AssertionError
  otherwise.
\<close>

theorem validate_config_object_walk:
  "validate_config_object e
     = (if list_all (\<lambda>x. rptr x \<noteq> None) (visited e) then Inr () else Inl AssertionError)
   \<and> (has_rptrs e \<longrightarrow> validate_config_object e = Inr ())
   \<and> (validate_op sch (ConfigInsert nm INSTANCE shp) = Inr info
        \<and> get_object sch (ref_name nm)
        \<and> inject_shape shp = Inr shp'
        \<and> cmp (InsertQuery
                  (Path [ObjectRef \<lparr>ref_name = ref_name nm, ref_module = Some ''cfg''\<rparr>]) shp')
             (ctx\<lparr>expr_exposed := True, modaliases := length (dicts st),
                  special_computables_in_mutation_shape :=
                    insert ''_tname'' (special_computables_in_mutation_shape ctx)\<rparr>)
             (dict_store (length (dicts st)) None ''cfg'' (snd (dict_copy (modaliases ctx) st)))
           = Inr insert_ir_set
        \<and> ir_expr insert_ir_set = InsertStmt subj
      \<longrightarrow> fst (compile_ConfigInsert sch cmp nm INSTANCE shp ctx st)
            = (if list_all (\<lambda>x. rptr x \<noteq> None) (visited subj)
               then Inr (ConfigInsertIR (param_name info) (cardinality info) INSTANCE
                           (requires_restart info) (backend_setting info) subj)
               else Inl AssertionError))"
  using validate_visited(1) [of e] validate_has_rptrs(1) [of e]
    compile_ConfigInsert_walk [of sch nm shp info shp' cmp ctx st insert_ir_set subj]
  by blast

theorem validate_config_object_walk_witness:
  "validate_config_object nested_insert_without_rptr = Inl AssertionError
   \<and> has_rptrs subject_with_reference
   \<and> validate_config_object subject_with_reference = Inr ()
   \<and> fst (compile_ConfigInsert schema0 compiler0 (name_of ''Auth'') INSTANCE [] ctx0 cenv0)
       = Inr (ConfigInsertIR ''auth'' Many INSTANCE False None subject_with_reference)
   \<and> fst (compile_ConfigInsert schema0 compiler1 (name_of ''Auth'') INSTANCE [] ctx0 cenv0)
       = Inl AssertionError"
proof -
  let ?info = "\<lparr>param_name = ''auth'', param_type = ObjectType ''Auth'', cardinality = Many,
      requires_restart = False, backend_setting = None, affects_compilation = JBool False\<rparr>"
  have v: "validate_op schema0 (ConfigInsert (name_of ''Auth'') INSTANCE []) = Inr ?info"
    by (simp add: validate_op_defs schema0_defs)
  have g: "get_object schema0 (ref_name (name_of ''Auth''))"
    by (simp add: schema0_defs)
  have i: "inject_shape [] = Inr []" by simp
  have c0: "ir_expr (IRSet None True (InsertStmt subject_with_reference) [])
      = InsertStmt subject_with_reference"
    and c1: "ir_expr (IRSet None True (InsertStmt nested_insert_without_rptr) [])
      = InsertStmt nested_insert_without_rptr"
    by simp_all
  have w0: "list_all (\<lambda>x. rptr x \<noteq> None) (visited subject_with_reference)"
    and h0: "has_rptrs subject_with_reference"
    by (simp_all add: subject_with_reference_def)
  have w1: "\<not> list_all (\<lambda>x. rptr x \<noteq> None) (visited nested_insert_without_rptr)"
    by (simp add: nested_insert_without_rptr_def)
  show ?thesis
    using validate_config_object_walk [of subject_with_reference schema0 "name_of ''Auth''" "[]"
        ?info "[]" compiler0 ctx0 cenv0 "IRSet None True (InsertStmt subject_with_reference) []"
        subject_with_reference]
      validate_config_object_walk [of nested_insert_without_rptr schema0 "name_of ''Auth''" "[]"
        ?info "[]" compiler1 ctx0 cenv0 "IRSet None True (InsertStmt nested_insert_without_rptr) []"
        nested_insert_without_rptr]
      v g i c0 c1 w0 h0 w1
    by (simp add: compiler0_def compiler1_def)
qed

text \<open>
  C5, as stated, fails: at a scope other than INSTANCE an unknown target and a system-level
  target fail with ConfigurationError, raised by the setting resolution that runs first.
\<close>

theorem compile_ConfigInsert_scope_counterexample:
  "fst (compile_ConfigInsert schema0 compiler0 (name_of ''NoSuchObject'') SESSION [] ctx0 cenv0)
     = Inl (ConfigurationError (Unrecognized_object ''NoSuchObject''))
   \<and> fst (compile_ConfigInsert schema0 compiler0 (name_of ''Auth'') DATABASE [] ctx0 cenv0)
     = Inl (ConfigurationError (System_level_parameter ''auth''))"
  by (simp add: compile_ConfigInsert_def validate_op_defs schema0_defs)

text \<open>
  C5, amended: at a scope other than INSTANCE, compile_ConfigInsert always fails and
  leaves the compiler state alone; the error is UnsupportedFeatureError when the setting
  resolution of the target succeeds, and the resolution's own error otherwise.
\<close>

theorem compile_ConfigInsert_scope:
  assumes "scope \<noteq> INSTANCE"
  shows "fst (compile_ConfigInsert sch cmp nm scope shp ctx st)
           = (case validate_op sch (ConfigInsert nm scope shp) of
                Inl e \<Rightarrow> Inl e
              | Inr info \<Rightarrow> Inl (UnsupportedFeatureError scope))
       \<and> snd (compile_ConfigInsert sch cmp nm scope shp ctx st) = st"
  using assms by (simp add: compile_ConfigInsert_def split: sum.splits)

theorem compile_ConfigInsert_scope_witness:
  "SESSION \<noteq> INSTANCE
   \<and> validate_op schema0 (ConfigInsert (name_of ''TestSessionConfig'') SESSION [])
       = Inr \<lparr>param_name = ''sessobj'', param_type = ObjectType ''TestSessionConfig'',
              cardinality = Many, requires_restart = False, backend_setting = None,
              affects_compilation = JBool False\<rparr>
   \<and> fst (compile_ConfigInsert schema0 compiler0 (name_of ''TestSessionConfig'') SESSION []
            ctx0 cenv0) = Inl (UnsupportedFeatureError SESSION)
   \<and> snd (compile_ConfigInsert schema0 compiler0 (name_of ''TestSessionConfig'') SESSION []
            ctx0 cenv0) = cenv0"
proof -
  have v: "validate_op schema0 (ConfigInsert (name_of ''TestSessionConfig'') SESSION [])
       = Inr \<lparr>param_name = ''sessobj'', param_type = ObjectType ''TestSessionConfig'',
              cardinality = Many, requires_restart = False, backend_setting = None,
              affects_compilation = JBool False\<rparr>"
    by (simp add: validate_op_defs schema0_defs)
  show ?thesis
    using compile_ConfigInsert_scope [of SESSION schema0 compiler0 "name_of ''TestSessionConfig''"
        "[]" ctx0 cenv0] v
    by simp
qed

lemma find_candidate_dropWhile:
  "find_candidate sch mro =
     (case dropWhile (\<lambda>ct. get_referrers sch ct = []) mro of
        [] \<Rightarrow> None
      | ct # _ \<Rightarrow> Some (hd (get_referrers sch ct)))"
  by (induction mro) (auto split: list.splits)

lemma setting_of_pointer_not_direct:
  "setting_of_pointer sch scope name cfg_type ptr
     \<noteq> Inl (ConfigurationError (Cannot_be_configured_directly name'))"
  by (auto simp: setting_of_pointer_def Let_def split: option.splits sum.splits)

lemma setting_of_pointer_Inr:
  "setting_of_pointer sch scope name cfg_type ptr = Inr info
     \<Longrightarrow> param_name info = name \<and> param_type info = cfg_type"
  by (auto simp: setting_of_pointer_def Let_def split: option.splits sum.splits if_splits)

text \<open>
  C7, as stated, fails: the most-derived type is the target of a link whose source is not
  under the root, its parent the target of one whose source is the root. The walk the
  claim describes selects the second link; _validate_op stops at the first and fails.
\<close>

theorem validate_op_object_resolution_counterexample:
  "spec_find_link schema0 (ObjectType ''AbstractConfig'')
       (ObjectType ''SpecialAuth'' # get_ancestors schema0 (ObjectType ''SpecialAuth''))
     = Some auth_link
   \<and> validate_op schema0 (ConfigInsert (name_of ''SpecialAuth'') INSTANCE [])
     = Inl (ConfigurationError (Cannot_be_configured_directly ''SpecialAuth''))"
  by (simp add: validate_op_defs schema0_defs)

text \<open>
  C7, amended: on the object path of _validate_op (an INSERT, or a RESET whose name is no
  pointer of the root), with the named type an object type, the candidate is the first
  link of the first type of the chain (most-derived first) that is the target of any link,
  whatever the link's source; the resolution fails with "<name> cannot be configured
  directly" exactly when no type of the chain has such a link, or the candidate has no
  source, or its source is not under the root configuration object; when it succeeds the
  setting is named after the candidate.
\<close>

theorem validate_op_object_resolution:
  assumes module_ok: "ref_module (op_name expr) = None \<or> ref_module (op_name expr) = Some []
      \<or> ref_module (op_name expr) = Some ''cfg''"
    and root: "get_type sch ''AbstractConfig'' = Some (ObjectType h)"
    and not_set: "\<not> is_config_set expr"
    and no_ptr: "is_set_or_reset expr
      \<longrightarrow> maybe_get_ptr sch (ObjectType h) (ref_name (op_name expr)) = None"
    and known: "get_type sch (ref_name (op_name expr)) = Some (ObjectType n)"
  shows "find_candidate sch (ObjectType n # get_ancestors sch (ObjectType n))
           = (case dropWhile (\<lambda>ct. get_referrers sch ct = [])
                     (ObjectType n # get_ancestors sch (ObjectType n)) of
                [] \<Rightarrow> None
              | ct # _ \<Rightarrow> Some (hd (get_referrers sch ct)))
       \<and> ((validate_op sch expr
             = Inl (ConfigurationError (Cannot_be_configured_directly (ref_name (op_name expr)))))
           = (case find_candidate sch (ObjectType n # get_ancestors sch (ObjectType n)) of
                None \<Rightarrow> True
              | Some l \<Rightarrow>
                  (case ptr_source l of
                     None \<Rightarrow> True
                   | Some src \<Rightarrow> \<not> issubclass sch src (ObjectType h))))
       \<and> (\<forall>info. validate_op sch expr = Inr info \<longrightarrow>
             (\<exists>l. find_candidate sch (ObjectType n # get_ancestors sch (ObjectType n)) = Some l
                \<and> param_name info = shortname l \<and> param_type info = ObjectType n))"
proof -
  let ?name = "ref_name (op_name expr)"
  let ?mro = "ObjectType n # get_ancestors sch (ObjectType n)"
  have lookup: "(if is_set_or_reset expr
                 then (case maybe_get_ptr sch (ObjectType h) ?name of
                         None \<Rightarrow> None
                       | Some ptr \<Rightarrow> map_option (Pair ptr) (ptr_target ptr))
                 else None) = None"
    using no_ptr by simp
  have module: "\<not> (case ref_module (op_name expr) of None \<Rightarrow> False
                     | Some m \<Rightarrow> m \<noteq> [] \<and> m \<noteq> ''cfg'')"
    using module_ok by (auto split: option.splits)
  have v: "validate_op sch expr =
             (case resolve_config_object sch (ObjectType h) ?name of
                Inl e \<Rightarrow> Inl e
              | Inr (ptr, cfg_type) \<Rightarrow>
                  setting_of_pointer sch (op_scope expr) (shortname ptr) cfg_type ptr)"
    unfolding validate_op_def Let_def using module root not_set lookup by simp
  have r: "resolve_config_object sch (ObjectType h) ?name =
             (case find_candidate sch ?mro of
                None \<Rightarrow> Inl (ConfigurationError (Cannot_be_configured_directly ?name))
              | Some l \<Rightarrow>
                  (case ptr_source l of
                     None \<Rightarrow> Inl (ConfigurationError (Cannot_be_configured_directly ?name))
                   | Some src \<Rightarrow>
                       if \<not> issubclass sch src (ObjectType h)
                       then Inl (ConfigurationError (Cannot_be_configured_directly ?name))
                       else Inr (l, ObjectType n)))"
    using known by (simp add: resolve_config_object_def)
  have a: "find_candidate sch ?mro
           = (case dropWhile (\<lambda>ct. get_referrers sch ct = []) ?mro of
                [] \<Rightarrow> None
              | ct # _ \<Rightarrow> Some (hd (get_referrers sch ct)))"
    by (rule find_candidate_dropWhile)
  have b: "(validate_op sch expr = Inl (ConfigurationError (Cannot_be_configured_directly ?name)))
           = (case find_candidate sch ?mro of
                None \<Rightarrow> True
              | Some l \<Rightarrow>
                  (case ptr_source l of
                     None \<Rightarrow> True
                   | Some src \<Rightarrow> \<not> issubclass sch src (ObjectType h)))"
    unfolding v r
    by (auto simp: setting_of_pointer_not_direct split: option.splits)
  have c: "\<forall>info. validate_op sch expr = Inr info \<longrightarrow>
             (\<exists>l. find_candidate sch ?mro = Some l
                \<and> param_name info = shortname l \<and> param_type info = ObjectType n)"
    unfolding v r
    by (auto split: option.splits if_splits dest: setting_of_pointer_Inr)
  from a b c show ?thesis by blast
qed

theorem validate_op_object_resolution_witness:
  "ref_module (op_name (ConfigInsert (name_of ''Auth'') INSTANCE [])) = None
   \<and> get_type schema0 ''AbstractConfig'' = Some (ObjectType ''AbstractConfig'')
   \<and> \<not> is_config_set (ConfigInsert (name_of ''Auth'') INSTANCE [])
   \<and> \<not> is_set_or_reset (ConfigInsert (name_of ''Auth'') INSTANCE [])
   \<and> get_type schema0 (ref_name (op_name (ConfigInsert (name_of ''Auth'') INSTANCE [])))
       = Some (ObjectType ''Auth'')
   \<and> find_candidate schema0 (ObjectType ''Auth'' # get_ancestors schema0 (ObjectType ''Auth''))
       = Some auth_link
   \<and> validate_op schema0 (ConfigInsert (name_of ''Auth'') INSTANCE [])
       \<noteq> Inl (ConfigurationError (Cannot_be_configured_directly ''Auth''))"
  using validate_op_object_resolution [of "ConfigInsert (name_of ''Auth'') INSTANCE []" schema0
      "''AbstractConfig''" "''Auth''"]
  by (simp add: schema0_defs issubclass_def)

lemma compile_ConfigInsert_dicts:
  "dicts (snd (compile_ConfigInsert sch cmp nm scope shp ctx st)) = dicts st
   \<or> dicts (snd (compile_ConfigInsert sch cmp nm scope shp ctx st))
       = dicts st @ [(dicts st ! modaliases ctx)(None \<mapsto> ''cfg'')]"
  by (auto simp: compile_ConfigInsert_def dict_copy_def dict_store_def Let_def
      split: sum.splits irexpr.splits)

lemma compile_ConfigInsert_Inr_dicts:
  "fst (compile_ConfigInsert sch cmp nm scope shp ctx st) = Inr ir
   \<Longrightarrow> dicts (snd (compile_ConfigInsert sch cmp nm scope shp ctx st))
       = dicts st @ [(dicts st ! modaliases ctx)(None \<mapsto> ''cfg'')]"
  by (auto simp: compile_ConfigInsert_def dict_copy_def dict_store_def Let_def
      split: sum.splits irexpr.splits if_splits)

lemma compile_ConfigReset_object_dicts:
  "validate_op sch (ConfigReset nm scope flt) = Inr info \<Longrightarrow> param_type info = ObjectType tn
   \<Longrightarrow> dicts (snd (compile_ConfigReset sch cmp nm scope flt ctx st))
       = (dicts st)[modaliases ctx := (dicts st ! modaliases ctx)(None \<mapsto> ''cfg'')]"
  by (auto simp: compile_ConfigReset_def dict_store_def Let_def split: sum.splits)

text \<open>
  C10: a successful compile_ConfigReset of an object-typed parameter writes the default
  module alias cfg into the dictionary the caller's context refers to, and the returned
  state keeps it; compile_ConfigInsert leaves every dictionary of the caller as it was (the
  one its context refers to included) and, when it succeeds, has put the alias into a new
  copy.
\<close>

theorem compile_reset_mutates_insert_copies:
  assumes valid_ref: "modaliases ctx < length (dicts st)"
  shows "(validate_op sch (ConfigReset nm scope flt) = Inr info
            \<and> param_type info = ObjectType tn
            \<and> fst (compile_ConfigReset sch cmp nm scope flt ctx st) = Inr ir
          \<longrightarrow> dicts (snd (compile_ConfigReset sch cmp nm scope flt ctx st))
                = (dicts st)[modaliases ctx := (dicts st ! modaliases ctx)(None \<mapsto> ''cfg'')]
            \<and> (dicts (snd (compile_ConfigReset sch cmp nm scope flt ctx st)) ! modaliases ctx) None
                = Some ''cfg'')
       \<and> take (length (dicts st))
            (dicts (snd (compile_ConfigInsert sch cmp nm' scope' shp ctx st))) = dicts st
       \<and> dicts (snd (compile_ConfigInsert sch cmp nm' scope' shp ctx st)) ! modaliases ctx
            = dicts st ! modaliases ctx
       \<and> (fst (compile_ConfigInsert sch cmp nm' scope' shp ctx st) = Inr ir'
          \<longrightarrow> dicts (snd (compile_ConfigInsert sch cmp nm' scope' shp ctx st))
                = dicts st @ [(dicts st ! modaliases ctx)(None \<mapsto> ''cfg'')])"
proof -
  have reset: "validate_op sch (ConfigReset nm scope flt) = Inr info
            \<and> param_type info = ObjectType tn
            \<and> fst (compile_ConfigReset sch cmp nm scope flt ctx st) = Inr ir
          \<longrightarrow> dicts (snd (compile_ConfigReset sch cmp nm scope flt ctx st))
                = (dicts st)[modaliases ctx := (dicts st ! modaliases ctx)(None \<mapsto> ''cfg'')]
            \<and> (dicts (snd (compile_ConfigReset sch cmp nm scope flt ctx st)) ! modaliases ctx) None
                = Some ''cfg''"
    using valid_ref by (auto simp: compile_ConfigReset_object_dicts)
  have pre: "take (length (dicts st))
       (dicts (snd (compile_ConfigInsert sch cmp nm' scope' shp ctx st))) = dicts st"
    using compile_ConfigInsert_dicts [of sch cmp nm' scope' shp ctx st] by auto
  have same: "dicts (snd (compile_ConfigInsert sch cmp nm' scope' shp ctx st)) ! modaliases ctx
       = dicts st ! modaliases ctx"
    using compile_ConfigInsert_dicts [of sch cmp nm' scope' shp ctx st] valid_ref
    by (auto simp: nth_append)
  have copy: "fst (compile_ConfigInsert sch cmp nm' scope' shp ctx st) = Inr ir'
          \<longrightarrow> dicts (snd (compile_ConfigInsert sch cmp nm' scope' shp ctx st))
                = dicts st @ [(dicts st ! modaliases ctx)(None \<mapsto> ''cfg'')]"
    by (simp add: compile_ConfigInsert_Inr_dicts)
  from reset pre same copy show ?thesis by blast
qed

theorem compile_reset_mutates_insert_copies_witness:
  "modaliases ctx0 < length (dicts cenv0)
   \<and> validate_op schema0 (ConfigReset (name_of ''auth'') INSTANCE None)
       = Inr \<lparr>param_name = ''auth'', param_type = ObjectType ''Auth'', cardinality = Many,
              requires_restart = False, backend_setting = None,
              affects_compilation = JBool False\<rparr>
   \<and> fst (compile_ConfigReset schema0 compiler0 (name_of ''auth'') INSTANCE None ctx0 cenv0)
       = Inr (ConfigResetIR ''auth'' Many INSTANCE False None (Some (IRSet None True OtherStmt [])))
   \<and> (dicts cenv0 ! modaliases ctx0) None = Some ''default''
   \<and> (dicts (snd (compile_ConfigReset schema0 compiler0 (name_of ''auth'') INSTANCE None ctx0 cenv0))
        ! modaliases ctx0) None = Some ''cfg''
   \<and> fst (compile_ConfigInsert schema0 compiler0 (name_of ''Auth'') INSTANCE [] ctx0 cenv0)
       = Inr (ConfigInsertIR ''auth'' Many INSTANCE False None subject_with_reference)
   \<and> (dicts (snd (compile_ConfigInsert schema0 compiler0 (name_of ''Auth'') INSTANCE [] ctx0 cenv0))
        ! modaliases ctx0) None = Some ''default''
   \<and> (dicts (snd (compile_ConfigInsert schema0 compiler0 (name_of ''Auth'') INSTANCE [] ctx0 cenv0))
        ! 1) None = Some ''cfg''"
proof -
  have v: "validate_op schema0 (ConfigReset (name_of ''auth'') INSTANCE None)
       = Inr \<lparr>param_name = ''auth'', param_type = ObjectType ''Auth'', cardinality = Many,
              requires_restart = False, backend_setting = None,
              affects_compilation = JBool False\<rparr>"
    by (simp add: validate_op_defs schema0_defs)
  have r: "fst (compile_ConfigReset schema0 compiler0 (name_of ''auth'') INSTANCE None ctx0 cenv0)
       = Inr (ConfigResetIR ''auth'' Many INSTANCE False None (Some (IRSet None True OtherStmt [])))"
    by (simp add: compile_ConfigReset_def v compiler0_def)
  have i: "fst (compile_ConfigInsert schema0 compiler0 (name_of ''Auth'') INSTANCE [] ctx0 cenv0)
       = Inr (ConfigInsertIR ''auth'' Many INSTANCE False None subject_with_reference)"
    by (simp add: compile_ConfigInsert_def validate_op_defs schema0_defs compiler0_def
      subject_with_reference_def dict_copy_def dict_store_def ctx0_def cenv0_def)
  have c: "modaliases ctx0 < length (dicts cenv0)"
    "(dicts cenv0 ! modaliases ctx0) None = Some ''default''"
    by (simp_all add: ctx0_def cenv0_def)
  show ?thesis
    using compile_reset_mutates_insert_copies [OF c(1), of schema0 "name_of ''auth''" INSTANCE None
        "\<lparr>param_name = ''auth'', param_type = ObjectType ''Auth'', cardinality = Many,
              requires_restart = False, backend_setting = None,
              affects_compilation = JBool False\<rparr>" "''Auth''" compiler0
        "ConfigResetIR ''auth'' Many INSTANCE False None (Some (IRSet None True OtherStmt []))"
        "name_of ''Auth''" INSTANCE "[]"
        "ConfigInsertIR ''auth'' Many INSTANCE False None subject_with_reference"]
      v r i c
    by (simp add: ctx0_def cenv0_def)
qed

end
